theory Spec2Isabelle
  imports Main "HOL-Library.Word"
begin

unbundle bit_operations_syntax

section \<open>The MAX47x6 driver: data\<close>

text \<open>
  The driver of \<^verbatim>\<open>src/src/MAX47x6-RK.cpp\<close> and its header. \<^verbatim>\<open>uint8_t\<close> is \<open>8 word\<close>,
  \<^verbatim>\<open>uint16_t\<close> is \<open>16 word\<close>, \<^verbatim>\<open>unsigned long\<close> (the result of \<^verbatim>\<open>millis()\<close>) is
  \<open>32 word\<close>. C promotes both narrow types to \<^verbatim>\<open>int\<close> before any arithmetic:
  \<open>uint\<close> is that promotion, \<open>to_uint8\<close> is the conversion back to \<^verbatim>\<open>uint8_t\<close>
  (the low 8 bits).
\<close>

datatype Model = MAX4706 | MAX4716 | MAX4726

record MAX47x6 =
  model :: Model
  addr :: "8 word"

definition to_uint8 :: "int \<Rightarrow> 8 word" where
  "to_uint8 i = word_of_int i"

definition GAIN_1X :: "8 word" where "GAIN_1X = 0"
definition GAIN_2X :: "8 word" where "GAIN_2X = 1"

definition CMD_WRITE_VOLATILE_REG :: "8 word" where "CMD_WRITE_VOLATILE_REG = 0"
definition CMD_WRITE_VOLATILE_MEMORY :: "8 word" where "CMD_WRITE_VOLATILE_MEMORY = 2"
definition CMD_WRITE_ALL_MEMORY :: "8 word" where "CMD_WRITE_ALL_MEMORY = 3"
definition CMD_WRITE_VOLATILE_CONFIG :: "8 word" where "CMD_WRITE_VOLATILE_CONFIG = 4"

definition MAX_EEPROM_WAIT_MS :: "32 word" where "MAX_EEPROM_WAIT_MS = 100"

text \<open>
  The constructor initialises the member \<^verbatim>\<open>addr\<close> from the parameter of the same name.
  Inside the body the name \<^verbatim>\<open>addr\<close> is the parameter (a parameter hides a member), so
  \<^verbatim>\<open>addr |= 0x60\<close> updates the parameter, a local that is dropped when the constructor
  returns; the member keeps the value it was initialised with.
\<close>

definition MAX47x6_new :: "Model \<Rightarrow> 8 word \<Rightarrow> MAX47x6" where
  "MAX47x6_new m addr_param =
     (let this = \<lparr>model = m, addr = addr_param\<rparr>;
          addr_param = (if addr_param < 0x8 then to_uint8 (uint addr_param OR 0x60)
                        else addr_param)
      in this)"

section \<open>The command frame\<close>

text \<open>
  Lines 49 to 86 of \<^verbatim>\<open>updateSettings\<close>: the three bytes of \<^verbatim>\<open>buf\<close> as they are when
  \<^verbatim>\<open>writeDevice\<close> is called. The statement \<^verbatim>\<open>buf[0]= vref << 3\<close> is an assignment, as
  in the source.
\<close>

definition updateSettings_buf :: "Model \<Rightarrow> 8 word \<Rightarrow> 8 word \<Rightarrow> 16 word \<Rightarrow> bool \<Rightarrow> 8 word list" where
  "updateSettings_buf m v g val saveToEeprom =
     (let buf = [0, 0, 0];
          buf = (if saveToEeprom
                 then buf[0 := to_uint8 (uint (buf ! 0) OR push_bit 5 (uint CMD_WRITE_ALL_MEMORY))]
                 else buf[0 := to_uint8 (uint (buf ! 0) OR push_bit 5 (uint CMD_WRITE_VOLATILE_MEMORY))]);
          buf = buf[0 := to_uint8 (push_bit 3 (uint v))];
          buf = (if g \<noteq> 0 then buf[0 := to_uint8 (uint (buf ! 0) OR uint GAIN_2X)] else buf)
      in case m of
           MAX4706 \<Rightarrow> buf[1 := to_uint8 (uint val)]
         | MAX4716 \<Rightarrow> (buf[1 := to_uint8 (drop_bit 2 (uint val))])
                         [2 := to_uint8 (push_bit 6 (uint val))]
         | MAX4726 \<Rightarrow> (buf[1 := to_uint8 (drop_bit 4 (uint val))])
                         [2 := to_uint8 (push_bit 4 (uint val))])"

section \<open>The status structures and their layout in memory\<close>

text \<open>
  \<^verbatim>\<open>MAX47x6ConfigurationStatus\<close> is a packed struct of six bit-fields of type \<^verbatim>\<open>int\<close>
  in one byte; \<^verbatim>\<open>MAX47x6Status\<close> (6 bytes) and \<^verbatim>\<open>MAX47x6Status8\<close> (4 bytes) are
  packed structs, so their members lie at consecutive byte offsets in declaration order
  (the three \<^verbatim>\<open>static_assert\<close>s on the sizes say so). \<^verbatim>\<open>readStatus\<close> fills them by
  writing received bytes through a \<^verbatim>\<open>uint8_t *\<close> cast. What a member then reads as is
  fixed by the compiler's data layout, which the source does not state. It is a parameter:
  the byte order of a \<^verbatim>\<open>uint16_t\<close>, whether bit-fields are allocated from the least
  significant bit, and whether a plain \<^verbatim>\<open>int\<close> bit-field is signed. \<open>particle_abi\<close> is
  the layout of GCC for the little-endian ARM cores that \<^verbatim>\<open>Particle.h\<close> targets.
\<close>

record abi =
  little_endian :: bool
  lsb_first_bitfields :: bool
  signed_bitfields :: bool

definition particle_abi :: abi where
  "particle_abi = \<lparr>little_endian = True, lsb_first_bitfields = True, signed_bitfields = True\<rparr>"

record MAX47x6ConfigurationStatus =
  ready :: int
  por :: int
  filler :: int
  vref :: int
  powerdown :: int
  gain :: int

record MAX47x6Status =
  volatileConfig :: MAX47x6ConfigurationStatus
  volatileValue :: "16 word"
  nonVolatileConfig :: MAX47x6ConfigurationStatus
  nonVolatileValue :: "16 word"

record MAX47x6Status8 =
  volatileConfig8 :: MAX47x6ConfigurationStatus
  volatileValue8 :: "8 word"
  nonVolatileConfig8 :: MAX47x6ConfigurationStatus
  nonVolatileValue8 :: "8 word"

text \<open>
  The bit-field of width \<open>w\<close> that follows \<open>off\<close> bits of earlier fields, read from the
  byte \<open>c\<close> as an \<^verbatim>\<open>int\<close>.
\<close>

definition bitfield :: "abi \<Rightarrow> nat \<Rightarrow> nat \<Rightarrow> 8 word \<Rightarrow> int" where
  "bitfield a off w c =
     (let pos = (if lsb_first_bitfields a then off else 8 - off - w);
          raw = take_bit w (drop_bit pos (uint c))
      in if signed_bitfields a \<and> bit raw (w - 1) then raw - 2 ^ w else raw)"

definition overlay_config :: "abi \<Rightarrow> 8 word \<Rightarrow> MAX47x6ConfigurationStatus" where
  "overlay_config a c =
     \<lparr>ready = bitfield a 0 1 c, por = bitfield a 1 1 c, filler = bitfield a 2 1 c,
      vref = bitfield a 3 2 c, powerdown = bitfield a 5 2 c, gain = bitfield a 7 1 c\<rparr>"

definition overlay_uint16 :: "abi \<Rightarrow> 8 word \<Rightarrow> 8 word \<Rightarrow> 16 word" where
  "overlay_uint16 a b0 b1 =
     (if little_endian a then ucast b0 OR push_bit 8 (ucast b1)
      else push_bit 8 (ucast b0) OR ucast b1)"

definition overlay_status :: "abi \<Rightarrow> 8 word list \<Rightarrow> MAX47x6Status" where
  "overlay_status a bs =
     \<lparr>volatileConfig = overlay_config a (bs ! 0),
      volatileValue = overlay_uint16 a (bs ! 1) (bs ! 2),
      nonVolatileConfig = overlay_config a (bs ! 3),
      nonVolatileValue = overlay_uint16 a (bs ! 4) (bs ! 5)\<rparr>"

definition overlay_status8 :: "abi \<Rightarrow> 8 word list \<Rightarrow> MAX47x6Status8" where
  "overlay_status8 a bs =
     \<lparr>volatileConfig8 = overlay_config a (bs ! 0),
      volatileValue8 = bs ! 1,
      nonVolatileConfig8 = overlay_config a (bs ! 2),
      nonVolatileValue8 = bs ! 3\<rparr>"

definition convert :: "MAX47x6Status8 \<Rightarrow> MAX47x6Status" where
  "convert from =
     \<lparr>volatileConfig = volatileConfig8 from,
      volatileValue = ucast (volatileValue8 from),
      nonVolatileConfig = nonVolatileConfig8 from,
      nonVolatileValue = ucast (nonVolatileValue8 from)\<rparr>"

section \<open>The bus and the clock\<close>

text \<open>
  \<^verbatim>\<open>TwoWire\<close> and \<^verbatim>\<open>millis\<close> are not part of the repository. What they return is given
  by the environment: the result of the k-th call of \<^verbatim>\<open>millis()\<close>, of
  \<^verbatim>\<open>wire.read()\<close> and of \<^verbatim>\<open>wire.endTransmission()\<close>. The state counts the calls made
  so far and records the calls that address the bus.
\<close>

record env =
  millis_result :: "nat \<Rightarrow> 32 word"
  read_result :: "nat \<Rightarrow> int"
  endTransmission_result :: "nat \<Rightarrow> int"

datatype wire_call =
    WireBegin
  | BeginTransmission "8 word"
  | WireWrite "8 word"
  | EndTransmission "8 word"
  | RequestFrom "8 word" "8 word" "8 word"

record wire_state =
  trace :: "wire_call list"
  millis_calls :: nat
  read_calls :: nat
  end_calls :: nat

definition wire_log :: "wire_call \<Rightarrow> wire_state \<Rightarrow> wire_state" where
  "wire_log c s = s\<lparr>trace := trace s @ [c]\<rparr>"

definition millis :: "env \<Rightarrow> wire_state \<Rightarrow> 32 word \<times> wire_state" where
  "millis e s = (millis_result e (millis_calls s), s\<lparr>millis_calls := millis_calls s + 1\<rparr>)"

definition wire_read :: "env \<Rightarrow> wire_state \<Rightarrow> int \<times> wire_state" where
  "wire_read e s = (read_result e (read_calls s), s\<lparr>read_calls := read_calls s + 1\<rparr>)"

definition wire_endTransmission :: "env \<Rightarrow> 8 word \<Rightarrow> wire_state \<Rightarrow> int \<times> wire_state" where
  "wire_endTransmission e stop s =
     (endTransmission_result e (end_calls s),
      wire_log (EndTransmission stop) (s\<lparr>end_calls := end_calls s + 1\<rparr>))"

text \<open>The write transactions of a trace: the address and the bytes of each one.\<close>

fun transactions :: "(8 word \<times> 8 word list) option \<Rightarrow> wire_call list \<Rightarrow> (8 word \<times> 8 word list) list" where
  "transactions cur [] = []"
| "transactions cur (BeginTransmission a # cs) = transactions (Some (a, [])) cs"
| "transactions (Some (a, bs)) (WireWrite b # cs) = transactions (Some (a, bs @ [b])) cs"
| "transactions (Some (a, bs)) (EndTransmission stop # cs) = (a, bs) # transactions None cs"
| "transactions cur (c # cs) = transactions cur cs"

definition write_transactions :: "wire_call list \<Rightarrow> (8 word \<times> 8 word list) list" where
  "write_transactions cs = transactions None cs"

text \<open>The calls a run added to the trace.\<close>

definition issued :: "wire_state \<Rightarrow> wire_state \<Rightarrow> wire_call list" where
  "issued s s' = drop (length (trace s)) (trace s')"

section \<open>The driver's operations\<close>

text \<open>
  Each operation takes the driver object \<open>this\<close> and the state and returns its result with
  the new state; no operation assigns a member of the driver. The arguments \<^verbatim>\<open>vref\<close>,
  \<^verbatim>\<open>gain\<close> and \<^verbatim>\<open>value\<close> of the source are \<open>v\<close>, \<open>g\<close> and \<open>val\<close> here, since
  \<open>vref\<close> and \<open>gain\<close> name the members of the status structure; \<^verbatim>\<open>begin\<close> is
  \<open>begin_dev\<close>. The two \<^verbatim>\<open>for\<close> loops of \<^verbatim>\<open>readDevice\<close> and \<^verbatim>\<open>writeDevice\<close> are
  \<open>readDevice_loop\<close> and \<open>writeDevice_loop\<close>.
\<close>

definition begin_dev :: "MAX47x6 \<Rightarrow> wire_state \<Rightarrow> bool \<times> wire_state" where
  "begin_dev this s = (True, wire_log WireBegin s)"

definition updateValue :: "MAX47x6 \<Rightarrow> 16 word \<Rightarrow> wire_state \<Rightarrow> bool \<times> wire_state" where
  "updateValue this val s = (True, s)"

fun readDevice_loop :: "env \<Rightarrow> nat \<Rightarrow> 8 word list \<Rightarrow> wire_state \<Rightarrow> 8 word list \<times> wire_state" where
  "readDevice_loop e 0 buf s = (buf, s)"
| "readDevice_loop e (Suc k) buf s =
     (let (r, s1) = wire_read e s
      in readDevice_loop e k (buf @ [to_uint8 r]) s1)"

definition readDevice :: "env \<Rightarrow> MAX47x6 \<Rightarrow> nat \<Rightarrow> wire_state \<Rightarrow> 8 word list \<times> wire_state" where
  "readDevice e this bufLen s =
     readDevice_loop e bufLen [] (wire_log (RequestFrom (addr this) (of_nat bufLen) 1) s)"

fun writeDevice_loop :: "8 word list \<Rightarrow> wire_state \<Rightarrow> wire_state" where
  "writeDevice_loop [] s = s"
| "writeDevice_loop (b # bs) s = writeDevice_loop bs (wire_log (WireWrite b) s)"

definition writeDevice :: "env \<Rightarrow> MAX47x6 \<Rightarrow> 8 word list \<Rightarrow> wire_state \<Rightarrow> bool \<times> wire_state" where
  "writeDevice e this buf s =
     (let s1 = wire_log (BeginTransmission (addr this)) s;
          s2 = writeDevice_loop buf s1;
          (stat, s3) = wire_endTransmission e 1 s2
      in (stat = 0, s3))"

definition readStatus :: "abi \<Rightarrow> env \<Rightarrow> MAX47x6 \<Rightarrow> wire_state \<Rightarrow> MAX47x6Status \<times> wire_state" where
  "readStatus a e this s =
     (if model this = MAX4706
      then (let (bytes, s1) = readDevice e this 4 s
            in (convert (overlay_status8 a bytes), s1))
      else (let (bytes, s1) = readDevice e this 6 s
            in (overlay_status a bytes, s1)))"

definition isReady :: "abi \<Rightarrow> env \<Rightarrow> MAX47x6 \<Rightarrow> wire_state \<Rightarrow> bool \<times> wire_state" where
  "isReady a e this s =
     (let (status, s1) = readStatus a e this s
      in (ready (volatileConfig status) \<noteq> 0, s1))"

text \<open>
  The wait loop of \<^verbatim>\<open>updateSettings\<close> (lines 94 and 95). Nothing in the source bounds
  the number of its rounds: a run in which the clock never shows 100 ms and the device is
  never ready does not return, and has the value \<open>None\<close>.
\<close>

partial_function (option) updateSettings_wait ::
  "abi \<Rightarrow> env \<Rightarrow> MAX47x6 \<Rightarrow> 32 word \<Rightarrow> wire_state \<Rightarrow> wire_state option" where
  "updateSettings_wait a e this start s =
     (let (now, s1) = millis e s
      in if now - start < MAX_EEPROM_WAIT_MS
         then (let (rdy, s2) = isReady a e this s1
               in if \<not> rdy then updateSettings_wait a e this start s2 else Some s2)
         else Some s1)"

definition updateSettings ::
  "abi \<Rightarrow> env \<Rightarrow> MAX47x6 \<Rightarrow> 8 word \<Rightarrow> 8 word \<Rightarrow> 16 word \<Rightarrow> bool \<Rightarrow> wire_state \<Rightarrow> (bool \<times> wire_state) option" where
  "updateSettings a e this v g val saveToEeprom s =
     (let buf = updateSettings_buf (model this) v g val saveToEeprom;
          (ok, s1) = writeDevice e this buf s
      in if \<not> ok then Some (False, s1)
         else (let (start, s2) = millis e s1
               in case updateSettings_wait a e this start s2 of
                    None \<Rightarrow> None
                  | Some s3 \<Rightarrow> Some (True, s3)))"

definition updateEepromIfChanged ::
  "abi \<Rightarrow> env \<Rightarrow> MAX47x6 \<Rightarrow> 8 word \<Rightarrow> 8 word \<Rightarrow> 16 word \<Rightarrow> wire_state \<Rightarrow> (bool \<times> wire_state) option" where
  "updateEepromIfChanged a e this v g val s =
     (let (status, s1) = readStatus a e this s
      in if vref (nonVolatileConfig status) \<noteq> uint v
            \<or> gain (nonVolatileConfig status) \<noteq> uint g
            \<or> nonVolatileValue status \<noteq> val
         then updateSettings a e this v g val True s1
         else Some (True, s1))"

declare updateSettings_wait.simps [code]

section \<open>Notions used in the statements\<close>

text \<open>
  The header lists the resolutions: MAX4706 8 bit, MAX4716 10 bit, MAX4726 12 bit.
\<close>

definition value_bits :: "Model \<Rightarrow> nat" where
  "value_bits m = (case m of MAX4706 \<Rightarrow> 8 | MAX4716 \<Rightarrow> 10 | MAX4726 \<Rightarrow> 12)"

text \<open>The number of status bytes \<^verbatim>\<open>readStatus\<close> asks for, and the request it puts on the bus.\<close>

definition status_len :: "Model \<Rightarrow> nat" where
  "status_len m = (if m = MAX4706 then 4 else 6)"

definition poll :: "MAX47x6 \<Rightarrow> wire_call" where
  "poll this = RequestFrom (addr this) (of_nat (status_len (model this))) 1"

text \<open>The i-th byte that the next read of the device stores, and the first \<open>n\<close> of them.\<close>

definition received_byte :: "env \<Rightarrow> wire_state \<Rightarrow> nat \<Rightarrow> 8 word" where
  "received_byte e s i = to_uint8 (read_result e (read_calls s + i))"

definition received :: "env \<Rightarrow> wire_state \<Rightarrow> nat \<Rightarrow> 8 word list" where
  "received e s n = map (received_byte e s) [0..<n]"

text \<open>
  What \<^verbatim>\<open>isReady\<close> answers when the status bytes it reads start at the k-th result of
  \<^verbatim>\<open>wire.read()\<close>.
\<close>

definition ready_read :: "abi \<Rightarrow> env \<Rightarrow> MAX47x6 \<Rightarrow> nat \<Rightarrow> bool" where
  "ready_read a e this k =
     fst (isReady a e this \<lparr>trace = [], millis_calls = 0, read_calls = k, end_calls = 0\<rparr>)"

text \<open>
  Environments and states for concrete runs. \<open>reads_of xs\<close> hands out the bytes \<open>xs\<close> and
  then -1, the result of \<^verbatim>\<open>wire.read()\<close> when nothing is left. \<open>env_busy\<close> is a device
  whose status bytes are all zero (never ready) on a bus that acknowledges, with a clock
  that advances 50 ms from one call to the next.
\<close>

definition reads_of :: "int list \<Rightarrow> nat \<Rightarrow> int" where
  "reads_of xs k = (if k < length xs then xs ! k else - 1)"

definition idle :: wire_state where
  "idle = \<lparr>trace = [], millis_calls = 0, read_calls = 0, end_calls = 0\<rparr>"

definition env_busy :: env where
  "env_busy = \<lparr>millis_result = (\<lambda>k. 50 * of_nat k), read_result = (\<lambda>k. 0),
               endTransmission_result = (\<lambda>k. 0)\<rparr>"

definition env_nack :: env where
  "env_nack = \<lparr>millis_result = (\<lambda>k. 50 * of_nat k), read_result = (\<lambda>k. 0),
               endTransmission_result = (\<lambda>k. 2)\<rparr>"

definition env_status6 :: env where
  "env_status6 = \<lparr>millis_result = (\<lambda>k. 50 * of_nat k),
                  read_result = reads_of [0x00, 0x12, 0x34, 0x08, 0x56, 0x78],
                  endTransmission_result = (\<lambda>k. 0)\<rparr>"

definition env_status4 :: env where
  "env_status4 = \<lparr>millis_result = (\<lambda>k. 50 * of_nat k),
                  read_result = reads_of [0x01, 0x2A, 0x03, 0x15],
                  endTransmission_result = (\<lambda>k. 0)\<rparr>"

text \<open>The clock of \<open>env_busy\<close>, started 64 ms before it wraps around.\<close>

definition env_wrap :: env where
  "env_wrap = \<lparr>millis_result = (\<lambda>k. 0xFFFFFFC0 + 50 * of_nat k), read_result = (\<lambda>k. 0),
               endTransmission_result = (\<lambda>k. 0)\<rparr>"

text \<open>
  \<open>env_gain_set\<close> is a 10-bit device whose non-volatile configuration byte is 0x80 and
  whose non-volatile value bytes are 0x05, 0x00.
\<close>

definition env_gain_set :: env where
  "env_gain_set = \<lparr>millis_result = (\<lambda>k. 50 * of_nat k),
                   read_result = reads_of [0x01, 0x00, 0x00, 0x80, 0x05, 0x00],
                   endTransmission_result = (\<lambda>k. 0)\<rparr>"

section \<open>The frame, byte by byte\<close>

lemma updateSettings_buf_bytes:
  "updateSettings_buf m v g val p =
     [if g \<noteq> 0 then to_uint8 (uint (to_uint8 (push_bit 3 (uint v))) OR 1)
      else to_uint8 (push_bit 3 (uint v)),
      case m of MAX4706 \<Rightarrow> to_uint8 (uint val)
        | MAX4716 \<Rightarrow> to_uint8 (drop_bit 2 (uint val))
        | MAX4726 \<Rightarrow> to_uint8 (drop_bit 4 (uint val)),
      case m of MAX4706 \<Rightarrow> 0
        | MAX4716 \<Rightarrow> to_uint8 (push_bit 6 (uint val))
        | MAX4726 \<Rightarrow> to_uint8 (push_bit 4 (uint val))]"
  by (cases m) (simp_all add: updateSettings_buf_def GAIN_2X_def Let_def)

lemma bit_byte0:
  "bit (updateSettings_buf m v g val p ! 0) n =
     (if n = 0 then g \<noteq> 0 else 3 \<le> n \<and> n < 8 \<and> bit v (n - 3))"
  by (auto simp add: updateSettings_buf_bytes to_uint8_def bit_simps)

lemma take_bit_pow_add_int: "take_bit w (2 ^ w + i :: int) = take_bit w i"
  by (metis add.commute add.right_neutral take_bit_add take_bit_of_0 take_bit_eq_0_iff dvd_refl)

lemma take_bit_pow_add: "take_bit w (2 ^ w + k :: 16 word) = take_bit w k"
  apply (rule bit_word_eqI)
  apply (simp add: bit_take_bit_iff)
  apply transfer
  apply (simp add: bit_take_bit_iff)
  using take_bit_pow_add_int
  apply (metis bit_take_bit_iff)
  done

text \<open>The frame depends on no bit of the value above the variant's resolution.\<close>

lemma updateSettings_buf_take_bit:
  "updateSettings_buf m v g (take_bit (value_bits m) val) p = updateSettings_buf m v g val p"
proof (cases m)
  case MAX4706
  have "to_uint8 (uint (take_bit 8 val)) = to_uint8 (uint val)"
    unfolding to_uint8_def by (rule bit_word_eqI) (auto simp add: bit_simps)
  with MAX4706 show ?thesis by (simp add: updateSettings_buf_bytes value_bits_def)
next
  case MAX4716
  have "to_uint8 (drop_bit 2 (uint (take_bit 10 val))) = to_uint8 (drop_bit 2 (uint val))"
    unfolding to_uint8_def by (rule bit_word_eqI) (auto simp add: bit_simps)
  moreover have "to_uint8 (push_bit 6 (uint (take_bit 10 val))) = to_uint8 (push_bit 6 (uint val))"
    unfolding to_uint8_def by (rule bit_word_eqI) (auto simp add: bit_simps)
  ultimately show ?thesis using MAX4716 by (simp add: updateSettings_buf_bytes value_bits_def)
next
  case MAX4726
  have "to_uint8 (drop_bit 4 (uint (take_bit 12 val))) = to_uint8 (drop_bit 4 (uint val))"
    unfolding to_uint8_def by (rule bit_word_eqI) (auto simp add: bit_simps)
  moreover have "to_uint8 (push_bit 4 (uint (take_bit 12 val))) = to_uint8 (push_bit 4 (uint val))"
    unfolding to_uint8_def by (rule bit_word_eqI) (auto simp add: bit_simps)
  ultimately show ?thesis using MAX4726 by (simp add: updateSettings_buf_bytes value_bits_def)
qed

section \<open>What each operation does to the bus\<close>

lemma writeDevice_loop_eq:
  "writeDevice_loop bs s = s\<lparr>trace := trace s @ map WireWrite bs\<rparr>"
  by (induction bs arbitrary: s) (simp_all add: wire_log_def)

lemma writeDevice_eq:
  "writeDevice e this buf s =
     (endTransmission_result e (end_calls s) = 0,
      s\<lparr>trace := trace s @ BeginTransmission (addr this) # map WireWrite buf @ [EndTransmission 1],
        end_calls := end_calls s + 1\<rparr>)"
  by (simp add: writeDevice_def writeDevice_loop_eq wire_log_def wire_endTransmission_def)

lemma readDevice_loop_eq:
  "readDevice_loop e k buf s = (buf @ received e s k, s\<lparr>read_calls := read_calls s + k\<rparr>)"
proof (induction k arbitrary: buf s)
  case 0
  show ?case by (simp add: received_def)
next
  case (Suc k)
  have "received e s (Suc k) =
      to_uint8 (read_result e (read_calls s)) # received e (s\<lparr>read_calls := read_calls s + 1\<rparr>) k"
    by (simp add: received_def received_byte_def upt_conv_Cons map_Suc_upt [symmetric] del: upt_Suc)
  then show ?case by (simp add: Suc.IH wire_read_def)
qed

lemma readDevice_eq:
  "readDevice e this n s =
     (received e s n,
      s\<lparr>trace := trace s @ [RequestFrom (addr this) (of_nat n) 1], read_calls := read_calls s + n\<rparr>)"
  by (simp add: readDevice_def readDevice_loop_eq wire_log_def received_def received_byte_def)

lemma readStatus_state:
  "snd (readStatus a e this s) =
     s\<lparr>trace := trace s @ [poll this], read_calls := read_calls s + status_len (model this)\<rparr>"
  by (simp add: readStatus_def readDevice_eq poll_def status_len_def)

lemma isReady_state:
  "snd (isReady a e this s) =
     s\<lparr>trace := trace s @ [poll this], read_calls := read_calls s + status_len (model this)\<rparr>"
  using readStatus_state [of a e this s]
  by (simp add: isReady_def split_beta)

section \<open>The wait loop ends once the clock shows 100 ms\<close>

text \<open>
  If the n-th reading of the clock from now on is 100 ms or more after \<open>start\<close>, the loop
  returns after at most \<open>n\<close> polls; it puts nothing but status requests on the bus.
\<close>

lemma updateSettings_wait_exits:
  "MAX_EEPROM_WAIT_MS \<le> millis_result e (millis_calls s + n) - start \<Longrightarrow>
   \<exists>k s'. updateSettings_wait a e this start s = Some s'
     \<and> k \<le> n
     \<and> trace s' = trace s @ replicate k (poll this)
     \<and> end_calls s' = end_calls s
     \<and> millis_calls s' \<le> millis_calls s + n + 1"
proof (induction n arbitrary: s)
  case 0
  then have "\<not> millis_result e (millis_calls s) - start < MAX_EEPROM_WAIT_MS"
    by (simp add: not_less)
  then have "updateSettings_wait a e this start s = Some (s\<lparr>millis_calls := millis_calls s + 1\<rparr>)"
    by (subst updateSettings_wait.simps) (simp add: millis_def)
  then show ?case by simp
next
  case (Suc n)
  let ?s1 = "s\<lparr>millis_calls := millis_calls s + 1\<rparr>"
  let ?s2 = "snd (isReady a e this ?s1)"
  show ?case
  proof (cases "millis_result e (millis_calls s) - start < MAX_EEPROM_WAIT_MS")
    case False
    then have "updateSettings_wait a e this start s = Some ?s1"
      by (subst updateSettings_wait.simps) (simp add: millis_def)
    then show ?thesis by simp
  next
    case waiting: True
    have s2: "trace ?s2 = trace s @ [poll this]" "end_calls ?s2 = end_calls s"
      "millis_calls ?s2 = millis_calls s + 1"
      by (simp_all add: isReady_state)
    show ?thesis
    proof (cases "fst (isReady a e this ?s1)")
      case True
      with waiting have "updateSettings_wait a e this start s = Some ?s2"
        by (subst updateSettings_wait.simps) (simp add: millis_def split_beta)
      moreover have "trace ?s2 = trace s @ replicate 1 (poll this)"
        using s2 by simp
      ultimately show ?thesis using s2
        by (intro exI [of _ 1] exI [of _ ?s2]) simp
    next
      case False
      with waiting have step:
        "updateSettings_wait a e this start s = updateSettings_wait a e this start ?s2"
        by (subst updateSettings_wait.simps) (simp add: millis_def split_beta)
      from Suc.prems have "MAX_EEPROM_WAIT_MS \<le> millis_result e (millis_calls ?s2 + n) - start"
        using s2 by simp
      from Suc.IH [OF this] obtain k s' where
        k: "updateSettings_wait a e this start ?s2 = Some s'" "k \<le> n"
          "trace s' = trace ?s2 @ replicate k (poll this)"
          "end_calls s' = end_calls ?s2" "millis_calls s' \<le> millis_calls ?s2 + n + 1"
        by blast
      have "trace s' = trace s @ replicate (Suc k) (poll this)"
        using k(3) s2(1) by simp
      with k step s2 show ?thesis
        by (intro exI [of _ "Suc k"] exI [of _ s']) simp
    qed
  qed
qed

lemma updateSettings_fails:
  "endTransmission_result e (end_calls s) \<noteq> 0 \<Longrightarrow>
   updateSettings a e this v g val p s =
     Some (False, snd (writeDevice e this (updateSettings_buf (model this) v g val p) s))"
  by (simp add: updateSettings_def writeDevice_eq)

lemma updateSettings_returns:
  assumes "endTransmission_result e (end_calls s) = 0"
    and "MAX_EEPROM_WAIT_MS
           \<le> millis_result e (millis_calls s + 1 + n) - millis_result e (millis_calls s)"
  shows "\<exists>k s'. updateSettings a e this v g val p s = Some (True, s')
      \<and> trace s' = trace s @ BeginTransmission (addr this)
            # map WireWrite (updateSettings_buf (model this) v g val p)
            @ EndTransmission 1 # replicate k (poll this)"
proof -
  let ?buf = "updateSettings_buf (model this) v g val p"
  let ?s1 = "snd (writeDevice e this ?buf s)"
  let ?s2 = "?s1\<lparr>millis_calls := millis_calls ?s1 + 1\<rparr>"
  have "MAX_EEPROM_WAIT_MS
      \<le> millis_result e (millis_calls ?s2 + n) - millis_result e (millis_calls s)"
    using assms(2) by (simp add: writeDevice_eq add.commute add.left_commute)
  from updateSettings_wait_exits [OF this, of a this] obtain k s' where
    k: "updateSettings_wait a e this (millis_result e (millis_calls s)) ?s2 = Some s'"
       "trace s' = trace ?s2 @ replicate k (poll this)"
    by blast
  have "updateSettings a e this v g val p s = Some (True, s')"
    using assms(1) k(1) by (simp add: updateSettings_def writeDevice_eq millis_def)
  moreover have "trace s' = trace s @ BeginTransmission (addr this)
      # map WireWrite ?buf @ EndTransmission 1 # replicate k (poll this)"
    using k(2) by (simp add: writeDevice_eq)
  ultimately show ?thesis by blast
qed

lemma updateSettings_result:
  "updateSettings a e this v g val p s = Some (r, s') \<Longrightarrow>
   r = (endTransmission_result e (end_calls s) = 0)"
  by (auto simp add: updateSettings_def writeDevice_eq millis_def Let_def
      split: if_splits option.splits)

section \<open>What \<^verbatim>\<open>readStatus\<close> returns\<close>

lemma unat_bytes_low_high:
  fixes lo hi :: "8 word"
  shows "unat (ucast lo OR push_bit 8 (ucast hi) :: 16 word) = unat lo + 256 * unat hi"
proof -
  have sum: "(ucast lo OR push_bit 8 (ucast hi) :: 16 word) = ucast lo + push_bit 8 (ucast hi)"
    by (rule disjunctive_add [symmetric]) (auto simp add: bit_simps dest: bit_imp_le_length)
  have small: "unat lo < 256" "unat hi < 256"
    using unsigned_less [of lo] unsigned_less [of hi] by simp_all
  then have "take_bit 16 (unat lo) = unat lo" "take_bit 16 (unat hi) = unat hi"
    by (simp_all add: take_bit_nat_eq_self_iff)
  then have "unat (ucast lo :: 16 word) = unat lo" "unat (ucast hi :: 16 word) = unat hi"
    by (simp_all add: unsigned_ucast_eq)
  with sum small show ?thesis
    by (simp add: unat_word_ariths push_bit_eq_mult)
qed

lemma unat_overlay_uint16:
  "unat (overlay_uint16 a b0 b1) =
     (if little_endian a then unat b0 + 256 * unat b1 else 256 * unat b0 + unat b1)"
  using unat_bytes_low_high [of b0 b1] unat_bytes_low_high [of b1 b0]
  by (simp add: overlay_uint16_def or.commute add.commute)

lemma readStatus_value6:
  "model this \<noteq> MAX4706 \<Longrightarrow>
   fst (readStatus a e this s) =
     \<lparr>volatileConfig = overlay_config a (received_byte e s 0),
      volatileValue = overlay_uint16 a (received_byte e s 1) (received_byte e s 2),
      nonVolatileConfig = overlay_config a (received_byte e s 3),
      nonVolatileValue = overlay_uint16 a (received_byte e s 4) (received_byte e s 5)\<rparr>"
  by (simp add: readStatus_def readDevice_eq overlay_status_def received_def upt_conv_Cons
      eval_nat_numeral)

lemma readStatus_value4:
  "model this = MAX4706 \<Longrightarrow>
   fst (readStatus a e this s) =
     \<lparr>volatileConfig = overlay_config a (received_byte e s 0),
      volatileValue = ucast (received_byte e s 1),
      nonVolatileConfig = overlay_config a (received_byte e s 2),
      nonVolatileValue = ucast (received_byte e s 3)\<rparr>"
  by (simp add: readStatus_def readDevice_eq overlay_status8_def convert_def received_def
      upt_conv_Cons eval_nat_numeral)

text \<open>
  A signed bit-field of one bit reads as 0 or -1. Where plain \<^verbatim>\<open>int\<close> bit-fields are
  signed, the \<^verbatim>\<open>gain\<close> member therefore never equals \<^verbatim>\<open>GAIN_2X\<close>, and
  \<^verbatim>\<open>updateEepromIfChanged\<close> called with \<^verbatim>\<open>GAIN_2X\<close> goes on to \<^verbatim>\<open>updateSettings\<close>
  whatever the device reports.
\<close>

lemma signed_bitfield_1: "signed_bitfields a \<Longrightarrow> bitfield a off 1 c \<le> 0"
proof -
  assume sg: "signed_bitfields a"
  define x where "x = drop_bit (if lsb_first_bitfields a then off else 8 - off - 1) (uint c)"
  have "take_bit 1 x = 0 \<or> take_bit 1 x = 1"
    by (simp add: take_bit_eq_mod) presburger
  then show ?thesis
    using sg by (auto simp add: bitfield_def Let_def x_def [symmetric])
qed

lemma signed_gain_never_one:
  "signed_bitfields a \<Longrightarrow> gain (overlay_config a c) \<noteq> uint GAIN_2X"
  using signed_bitfield_1 [of a 7 c] by (simp add: overlay_config_def GAIN_2X_def)

lemma updateEepromIfChanged_signed_gain:
  "signed_bitfields a \<Longrightarrow>
   updateEepromIfChanged a e this v GAIN_2X val s =
     updateSettings a e this v GAIN_2X val True (snd (readStatus a e this s))"
proof -
  assume sg: "signed_bitfields a"
  have "\<exists>c. nonVolatileConfig (fst (readStatus a e this s)) = overlay_config a c"
    by (auto simp add: readStatus_def readDevice_eq overlay_status_def overlay_status8_def convert_def)
  with sg have "gain (nonVolatileConfig (fst (readStatus a e this s))) \<noteq> uint GAIN_2X"
    using signed_gain_never_one by auto
  then show ?thesis
    by (simp add: updateEepromIfChanged_def split_beta)
qed

lemma readStatus_signed_gain:
  "signed_bitfields a \<Longrightarrow>
   gain (nonVolatileConfig (fst (readStatus a e this s))) \<noteq> uint GAIN_2X"
proof -
  assume sg: "signed_bitfields a"
  have "\<exists>c. nonVolatileConfig (fst (readStatus a e this s)) = overlay_config a c"
    by (auto simp add: readStatus_def readDevice_eq overlay_status_def overlay_status8_def convert_def)
  with sg show ?thesis
    using signed_gain_never_one by auto
qed

section \<open>The wait loop, round by round\<close>

lemma received_read_calls:
  "read_calls s = read_calls t \<Longrightarrow> received e s n = received e t n"
  by (simp add: received_def received_byte_def)

lemma isReady_ready_read: "fst (isReady a e this s) = ready_read a e this (read_calls s)"
proof -
  have "received e s n = received e \<lparr>trace = [], millis_calls = 0, read_calls = read_calls s, end_calls = 0\<rparr> n"
    for n
    by (rule received_read_calls) simp
  then show ?thesis
    by (simp add: ready_read_def isReady_def readStatus_def readDevice_eq split_beta)
qed

lemma guard_elapsed:
  assumes "el < 2 ^ 32" and "now = start + of_nat el"
  shows "(now - start < MAX_EEPROM_WAIT_MS) = (el < 100)"
proof -
  have "unat (of_nat el :: 32 word) = el"
    using assms(1) by (simp add: unat_of_nat)
  then show ?thesis
    by (simp add: assms(2) MAX_EEPROM_WAIT_MS_def word_less_nat_alt)
qed

lemma updateSettings_wait_exact:
  assumes "\<forall>i<n. millis_result e (millis_calls s + i) - start < MAX_EEPROM_WAIT_MS
              \<and> \<not> ready_read a e this (read_calls s + i * status_len (model this))"
    and "\<not> millis_result e (millis_calls s + n) - start < MAX_EEPROM_WAIT_MS"
  shows "updateSettings_wait a e this start s =
     Some (s\<lparr>trace := trace s @ replicate n (poll this),
             millis_calls := millis_calls s + n + 1,
             read_calls := read_calls s + n * status_len (model this)\<rparr>)"
  using assms
proof (induction n arbitrary: s)
  case 0
  then show ?case
    by (subst updateSettings_wait.simps) (simp add: millis_def)
next
  case (Suc n)
  let ?s1 = "s\<lparr>millis_calls := millis_calls s + 1\<rparr>"
  let ?s2 = "snd (isReady a e this ?s1)"
  from Suc.prems(1) have first: "millis_result e (millis_calls s) - start < MAX_EEPROM_WAIT_MS"
    "\<not> ready_read a e this (read_calls s)"
    by (auto dest: spec [of _ 0])
  have s2: "trace ?s2 = trace s @ [poll this]" "millis_calls ?s2 = millis_calls s + 1"
    "read_calls ?s2 = read_calls s + status_len (model this)" "end_calls ?s2 = end_calls s"
    by (simp_all add: isReady_state)
  have s2_eq: "?s2 = s\<lparr>trace := trace s @ [poll this], millis_calls := millis_calls s + 1,
      read_calls := read_calls s + status_len (model this)\<rparr>"
    by (simp add: isReady_state)
  from first have step:
    "updateSettings_wait a e this start s = updateSettings_wait a e this start ?s2"
    by (subst updateSettings_wait.simps) (simp add: millis_def split_beta isReady_ready_read)
  have later: "\<forall>i<n. millis_result e (millis_calls ?s2 + i) - start < MAX_EEPROM_WAIT_MS
              \<and> \<not> ready_read a e this (read_calls ?s2 + i * status_len (model this))"
  proof (intro allI impI)
    fix i assume "i < n"
    then have "Suc i < Suc n" by simp
    with Suc.prems(1) have "millis_result e (millis_calls s + Suc i) - start < MAX_EEPROM_WAIT_MS
              \<and> \<not> ready_read a e this (read_calls s + Suc i * status_len (model this))"
      by blast
    then show "millis_result e (millis_calls ?s2 + i) - start < MAX_EEPROM_WAIT_MS
              \<and> \<not> ready_read a e this (read_calls ?s2 + i * status_len (model this))"
      unfolding s2 by (simp add: add.commute add.left_commute)
  qed
  have last: "\<not> millis_result e (millis_calls ?s2 + n) - start < MAX_EEPROM_WAIT_MS"
    using Suc.prems(2) unfolding s2 by simp
  have "updateSettings_wait a e this start s =
     Some (?s2\<lparr>trace := trace ?s2 @ replicate n (poll this),
             millis_calls := millis_calls ?s2 + n + 1,
             read_calls := read_calls ?s2 + n * status_len (model this)\<rparr>)"
    using Suc.IH [OF later last] step by simp
  also have "?s2\<lparr>trace := trace ?s2 @ replicate n (poll this),
             millis_calls := millis_calls ?s2 + n + 1,
             read_calls := read_calls ?s2 + n * status_len (model this)\<rparr>
      = s\<lparr>trace := trace s @ replicate (Suc n) (poll this),
             millis_calls := millis_calls s + Suc n + 1,
             read_calls := read_calls s + Suc n * status_len (model this)\<rparr>"
    unfolding s2_eq by simp
  finally show ?case .
qed

section \<open>The write transactions of a trace\<close>

lemma transactions_writes:
  "transactions (Some (ad, bs)) (map WireWrite xs @ cs) = transactions (Some (ad, bs @ xs)) cs"
  by (induction xs arbitrary: bs) simp_all

lemma transactions_polls:
  "transactions None (replicate k (poll this) @ cs) = transactions None cs"
  by (induction k) (simp_all add: poll_def)

lemma write_transactions_one:
  "write_transactions (poll this # BeginTransmission ad # map WireWrite buf
      @ EndTransmission st # replicate k (poll this)) = [(ad, buf)]"
  using transactions_polls [of k this "[]"]
  by (simp add: write_transactions_def transactions_writes poll_def)

text \<open>
  \<^verbatim>\<open>updateEepromIfChanged\<close> reads the status first. If the \<^verbatim>\<open>vref\<close> and \<^verbatim>\<open>gain\<close> members
  of the non-volatile configuration and the non-volatile value, as the comparison reads
  them, equal the arguments, it returns true and the run holds no write transaction. If
  the comparison finds a difference, the run holds exactly one write transaction, with the
  frame that \<^verbatim>\<open>updateSettings\<close> builds for \<^verbatim>\<open>saveToEeprom\<close> true.
\<close>

lemma updateEepromIfChanged_writes:
  "(vref (nonVolatileConfig (fst (readStatus a e this s))) = uint v
      \<and> gain (nonVolatileConfig (fst (readStatus a e this s))) = uint g
      \<and> nonVolatileValue (fst (readStatus a e this s)) = val
    \<longrightarrow> updateEepromIfChanged a e this v g val s = Some (True, snd (readStatus a e this s))
       \<and> write_transactions (issued s (snd (readStatus a e this s))) = [])
   \<and> (\<not> (vref (nonVolatileConfig (fst (readStatus a e this s))) = uint v
          \<and> gain (nonVolatileConfig (fst (readStatus a e this s))) = uint g
          \<and> nonVolatileValue (fst (readStatus a e this s)) = val)
       \<and> (endTransmission_result e (end_calls s) \<noteq> 0
          \<or> MAX_EEPROM_WAIT_MS
               \<le> millis_result e (millis_calls s + 1 + n) - millis_result e (millis_calls s))
    \<longrightarrow> (\<exists>r s'. updateEepromIfChanged a e this v g val s = Some (r, s')
          \<and> write_transactions (issued s s')
              = [(addr this, updateSettings_buf (model this) v g val True)]))"
proof (intro conjI impI)
  assume same: "vref (nonVolatileConfig (fst (readStatus a e this s))) = uint v
      \<and> gain (nonVolatileConfig (fst (readStatus a e this s))) = uint g
      \<and> nonVolatileValue (fst (readStatus a e this s)) = val"
  then show "updateEepromIfChanged a e this v g val s = Some (True, snd (readStatus a e this s))"
    by (simp add: updateEepromIfChanged_def split_beta)
  show "write_transactions (issued s (snd (readStatus a e this s))) = []"
    by (simp add: readStatus_state issued_def write_transactions_def poll_def)
next
  let ?s1 = "snd (readStatus a e this s)"
  let ?buf = "updateSettings_buf (model this) v g val True"
  assume "\<not> (vref (nonVolatileConfig (fst (readStatus a e this s))) = uint v
          \<and> gain (nonVolatileConfig (fst (readStatus a e this s))) = uint g
          \<and> nonVolatileValue (fst (readStatus a e this s)) = val)
       \<and> (endTransmission_result e (end_calls s) \<noteq> 0
          \<or> MAX_EEPROM_WAIT_MS
               \<le> millis_result e (millis_calls s + 1 + n) - millis_result e (millis_calls s))"
  then have differs: "updateEepromIfChanged a e this v g val s = updateSettings a e this v g val True ?s1"
    and env: "endTransmission_result e (end_calls s) \<noteq> 0
          \<or> MAX_EEPROM_WAIT_MS
               \<le> millis_result e (millis_calls s + 1 + n) - millis_result e (millis_calls s)"
    by (auto simp add: updateEepromIfChanged_def split_beta)
  have s1: "trace ?s1 = trace s @ [poll this]" "end_calls ?s1 = end_calls s"
    "millis_calls ?s1 = millis_calls s"
    by (simp_all add: readStatus_state)
  show "\<exists>r s'. updateEepromIfChanged a e this v g val s = Some (r, s')
          \<and> write_transactions (issued s s') = [(addr this, ?buf)]"
  proof (cases "endTransmission_result e (end_calls s) = 0")
    case False
    then have "updateSettings a e this v g val True ?s1 = Some (False, snd (writeDevice e this ?buf ?s1))"
      using updateSettings_fails [of e ?s1 a this v g val True] s1 by simp
    moreover have "write_transactions (issued s (snd (writeDevice e this ?buf ?s1))) = [(addr this, ?buf)]"
      using write_transactions_one [of this "addr this" ?buf 1 0]
      by (simp add: writeDevice_eq s1 issued_def)
    ultimately show ?thesis using differs
      by (intro exI [of _ False] exI [of _ "snd (writeDevice e this ?buf ?s1)"]) simp
  next
    case True
    with env have "MAX_EEPROM_WAIT_MS
               \<le> millis_result e (millis_calls ?s1 + 1 + n) - millis_result e (millis_calls ?s1)"
      using s1 by simp
    from updateSettings_returns [OF _ this, of a this v g val True] True s1
    obtain k s' where k: "updateSettings a e this v g val True ?s1 = Some (True, s')"
      "trace s' = trace ?s1 @ BeginTransmission (addr this) # map WireWrite ?buf
            @ EndTransmission 1 # replicate k (poll this)"
      by auto
    have "write_transactions (issued s s') = [(addr this, ?buf)]"
      using write_transactions_one [of this "addr this" ?buf 1 k]
      by (simp add: k(2) s1 issued_def)
    with k(1) differs show ?thesis
      by (intro exI [of _ True] exI [of _ s']) simp
  qed
qed

section \<open>Claims\<close>

text \<open>
  C1. For the 10-bit variant the request value 512, persist false, reference 0, gain 0
  should give the frame 0b01000000, 0b10000000, 0b00000000. The code gives a first byte
  of 0: the command selector that was or-ed into \<^verbatim>\<open>buf[0]\<close> is overwritten by the
  assignment of the reference bits. Bytes 1 and 2 are as claimed.
\<close>

theorem C1_frame_512_loses_command:
  "updateSettings_buf MAX4716 0 0 512 False = [0x00, 0x80, 0x00]
   \<and> updateSettings_buf MAX4716 0 0 512 False \<noteq> [0x40, 0x80, 0x00]"
  by (simp add: updateSettings_buf_def to_uint8_def GAIN_2X_def
      CMD_WRITE_VOLATILE_MEMORY_def CMD_WRITE_ALL_MEMORY_def)

text \<open>
  C2 as stated: byte 0 has the command selector in bits 7 to 5, the reference selector in
  bits 4 and 3, and the gain bit in bit 2. With gain 1, reference 0 and persist false the
  code's byte 0 is 1: bit 2 is clear.
\<close>

theorem C2_gain_not_in_bit_2:
  "\<not> (drop_bit 5 (updateSettings_buf MAX4706 0 1 0 False ! 0) = CMD_WRITE_VOLATILE_MEMORY
      \<and> take_bit 2 (drop_bit 3 (updateSettings_buf MAX4706 0 1 0 False ! 0)) = 0
      \<and> bit (updateSettings_buf MAX4706 0 1 0 False ! 0) 2)"
  by (simp add: updateSettings_buf_bytes to_uint8_def)

text \<open>
  C2, amended. For every request and every variant, bits 4 and 3 of byte 0 are the two low
  bits of the reference selector, bit 0 is the gain bit (\<^verbatim>\<open>GAIN_2X\<close> is 0b1), set exactly
  when the gain argument is not zero, and bits 2 and 1 are clear. Nothing is said of
  bits 7 to 5.
\<close>

theorem C2_byte0_reference_and_gain:
  "take_bit 2 (drop_bit 3 (updateSettings_buf m v g val p ! 0)) = take_bit 2 v
   \<and> bit (updateSettings_buf m v g val p ! 0) 0 = (g \<noteq> 0)
   \<and> bit (updateSettings_buf m v g val p ! 0) 1 = False
   \<and> bit (updateSettings_buf m v g val p ! 0) 2 = False"
proof -
  have "take_bit 2 (drop_bit 3 (updateSettings_buf m v g val p ! 0)) = take_bit 2 v"
    by (rule bit_word_eqI) (auto simp add: bit_simps bit_byte0)
  then show ?thesis by (simp add: bit_byte0)
qed

text \<open>
  C3. When the device's stored reference, gain and value equal the requested ones,
  \<^verbatim>\<open>updateEepromIfChanged\<close> should issue no write. The members of the configuration are
  bit-fields of type \<^verbatim>\<open>int\<close>; where these are signed, the one-bit \<^verbatim>\<open>gain\<close> reads as 0
  or -1 and the comparison with the argument \<^verbatim>\<open>GAIN_2X\<close> always finds a difference. A
  call with \<^verbatim>\<open>GAIN_2X\<close> then issues one write transaction whatever the device has stored;
  it returns when that transaction fails or the clock shows 100 ms.
\<close>

theorem C3_GAIN_2X_always_writes:
  assumes "signed_bitfields a"
    and "endTransmission_result e (end_calls s) \<noteq> 0
         \<or> MAX_EEPROM_WAIT_MS
              \<le> millis_result e (millis_calls s + 1 + n) - millis_result e (millis_calls s)"
  shows "\<exists>r s'. updateEepromIfChanged a e this v GAIN_2X val s = Some (r, s')
      \<and> write_transactions (issued s s')
          = [(addr this, updateSettings_buf (model this) v GAIN_2X val True)]"
  using updateEepromIfChanged_writes [of a e this s v GAIN_2X val n]
    readStatus_signed_gain [OF assms(1), of e this s] assms(2)
  by blast

text \<open>
  The device reports the gain bit set, reference 0 and the value 5 (the members read
  without sign are 1, 0 and 5), and the request is reference 0, \<^verbatim>\<open>GAIN_2X\<close>, value 5. On
  the layout of GCC the \<^verbatim>\<open>gain\<close> member reads as -1 and the frame 0x01, 0x01, 0x40 is
  written.
\<close>

theorem C3_GAIN_2X_always_writes_witness:
  "gain (nonVolatileConfig (fst (readStatus (particle_abi\<lparr>signed_bitfields := False\<rparr>)
       env_gain_set (MAX47x6_new MAX4716 0x60) idle))) = uint GAIN_2X
   \<and> vref (nonVolatileConfig (fst (readStatus (particle_abi\<lparr>signed_bitfields := False\<rparr>)
       env_gain_set (MAX47x6_new MAX4716 0x60) idle))) = uint (0 :: 8 word)
   \<and> nonVolatileValue (fst (readStatus particle_abi env_gain_set (MAX47x6_new MAX4716 0x60) idle)) = 5
   \<and> gain (nonVolatileConfig (fst (readStatus particle_abi
       env_gain_set (MAX47x6_new MAX4716 0x60) idle))) = - 1
   \<and> updateEepromIfChanged particle_abi env_gain_set (MAX47x6_new MAX4716 0x60) 0 GAIN_2X 5 idle
       = Some (True, \<lparr>trace = [RequestFrom 0x60 6 1, BeginTransmission 0x60, WireWrite 0x01,
                               WireWrite 0x01, WireWrite 0x40, EndTransmission 1,
                               RequestFrom 0x60 6 1],
                      millis_calls = 2, read_calls = 12, end_calls = 1\<rparr>)
   \<and> (\<exists>r s'. updateEepromIfChanged particle_abi env_gain_set (MAX47x6_new MAX4716 0x60)
                  0 GAIN_2X 5 idle = Some (r, s')
          \<and> write_transactions (issued idle s') = [(0x60, [0x01, 0x01, 0x40])])"
proof -
  let ?dev = "MAX47x6_new MAX4716 0x60"
  have stored: "gain (nonVolatileConfig (fst (readStatus (particle_abi\<lparr>signed_bitfields := False\<rparr>)
       env_gain_set ?dev idle))) = uint GAIN_2X"
    "vref (nonVolatileConfig (fst (readStatus (particle_abi\<lparr>signed_bitfields := False\<rparr>)
       env_gain_set ?dev idle))) = uint (0 :: 8 word)"
    "nonVolatileValue (fst (readStatus particle_abi env_gain_set ?dev idle)) = 5"
    "gain (nonVolatileConfig (fst (readStatus particle_abi env_gain_set ?dev idle))) = - 1"
    by code_simp+
  have run: "updateEepromIfChanged particle_abi env_gain_set ?dev 0 GAIN_2X 5 idle
       = Some (True, \<lparr>trace = [RequestFrom 0x60 6 1, BeginTransmission 0x60, WireWrite 0x01,
                               WireWrite 0x01, WireWrite 0x40, EndTransmission 1,
                               RequestFrom 0x60 6 1],
                      millis_calls = 2, read_calls = 12, end_calls = 1\<rparr>)"
    by code_simp
  have signed: "signed_bitfields particle_abi"
    by (simp add: particle_abi_def)
  have late: "endTransmission_result env_gain_set (end_calls idle) \<noteq> 0
      \<or> MAX_EEPROM_WAIT_MS
           \<le> millis_result env_gain_set (millis_calls idle + 1 + 1)
              - millis_result env_gain_set (millis_calls idle)"
    by (simp add: env_gain_set_def idle_def MAX_EEPROM_WAIT_MS_def)
  have frame: "addr ?dev = 0x60"
    "updateSettings_buf (model ?dev) 0 GAIN_2X 5 True = [0x01, 0x01, 0x40]"
    by (simp_all add: MAX47x6_new_def updateSettings_buf_bytes to_uint8_def GAIN_2X_def)
  from C3_GAIN_2X_always_writes [OF signed late, of ?dev 0 5]
  have "\<exists>r s'. updateEepromIfChanged particle_abi env_gain_set ?dev 0 GAIN_2X 5 idle = Some (r, s')
      \<and> write_transactions (issued idle s') = [(0x60, [0x01, 0x01, 0x40])]"
    by (simp add: frame)
  with stored run show ?thesis by blast
qed

text \<open>
  C4. \<^verbatim>\<open>updateSettings\<close> returns false exactly when the write transaction fails: whenever it
  returns, the result is whether \<^verbatim>\<open>endTransmission\<close> gave 0; it does return, with false,
  when the transaction fails; and it returns true when the transaction succeeds and some
  later reading of the clock is 100 ms or more after the first, whatever the device
  answers to the polls, so also when the ready bit is never seen.
\<close>

theorem C4_updateSettings_result:
  "(updateSettings a e this v g val p s = Some (r, s')
      \<longrightarrow> r = (endTransmission_result e (end_calls s) = 0))
   \<and> (endTransmission_result e (end_calls s) \<noteq> 0
      \<longrightarrow> (\<exists>s'. updateSettings a e this v g val p s = Some (False, s')))
   \<and> (endTransmission_result e (end_calls s) = 0
        \<and> MAX_EEPROM_WAIT_MS
             \<le> millis_result e (millis_calls s + 1 + n) - millis_result e (millis_calls s)
      \<longrightarrow> (\<exists>s'. updateSettings a e this v g val p s = Some (True, s')))"
  using updateSettings_result [of a e this v g val p s r s']
    updateSettings_fails [of e s a this v g val p]
    updateSettings_returns [of e s n a this v g val p]
  by blast

text \<open>
  A persisting write to a device that never reports ready, on a clock that reaches
  100 ms at its second reading after the start: the run returns true. The same write on a
  bus that does not acknowledge returns false.
\<close>

theorem C4_updateSettings_result_witness:
  "endTransmission_result env_busy (end_calls idle) = 0
   \<and> MAX_EEPROM_WAIT_MS
        \<le> millis_result env_busy (millis_calls idle + 1 + 1) - millis_result env_busy (millis_calls idle)
   \<and> updateSettings particle_abi env_busy (MAX47x6_new MAX4716 0x60) 0 0 512 True idle =
       Some (True, \<lparr>trace = [BeginTransmission 0x60, WireWrite 0, WireWrite 0x80, WireWrite 0,
                             EndTransmission 1, RequestFrom 0x60 6 1],
                    millis_calls = 3, read_calls = 6, end_calls = 1\<rparr>)
   \<and> endTransmission_result env_nack (end_calls idle) \<noteq> 0
   \<and> (\<exists>s'. updateSettings particle_abi env_nack (MAX47x6_new MAX4716 0x60) 0 0 512 True idle
          = Some (False, s'))"
proof -
  have run: "updateSettings particle_abi env_busy (MAX47x6_new MAX4716 0x60) 0 0 512 True idle =
       Some (True, \<lparr>trace = [BeginTransmission 0x60, WireWrite 0, WireWrite 0x80, WireWrite 0,
                             EndTransmission 1, RequestFrom 0x60 6 1],
                    millis_calls = 3, read_calls = 6, end_calls = 1\<rparr>)"
    by code_simp
  have ack: "endTransmission_result env_busy (end_calls idle) = 0"
    by (simp add: env_busy_def)
  have late: "MAX_EEPROM_WAIT_MS
        \<le> millis_result env_busy (millis_calls idle + 1 + 1) - millis_result env_busy (millis_calls idle)"
    by (simp add: env_busy_def idle_def MAX_EEPROM_WAIT_MS_def)
  have nack: "endTransmission_result env_nack (end_calls idle) \<noteq> 0"
    by (simp add: env_nack_def)
  from C4_updateSettings_result [of particle_abi env_nack "MAX47x6_new MAX4716 0x60" 0 0 512 True idle]
    nack
  have "\<exists>s'. updateSettings particle_abi env_nack (MAX47x6_new MAX4716 0x60) 0 0 512 True idle
          = Some (False, s')"
    by blast
  moreover
  from C4_updateSettings_result [of particle_abi env_busy "MAX47x6_new MAX4716 0x60" 0 0 512 True idle _ _ 1]
    ack late
  have "\<exists>s'. updateSettings particle_abi env_busy (MAX47x6_new MAX4716 0x60) 0 0 512 True idle
          = Some (True, s')"
    by blast
  ultimately show ?thesis using run ack late nack by blast
qed

text \<open>
  C5 as stated: the first byte of each pair is the high byte of the 16-bit value. On a
  little-endian host the status bytes 0x12, 0x34 at offsets 1 and 2 are read as 0x3412.
\<close>

theorem C5_little_endian_reads_low_byte_first:
  "volatileValue (fst (readStatus particle_abi env_status6 (MAX47x6_new MAX4716 0x60) idle)) = 0x3412
   \<and> volatileValue (fst (readStatus particle_abi env_status6 (MAX47x6_new MAX4716 0x60) idle)) \<noteq> 0x1234"
  by code_simp

text \<open>
  C5, amended. For the 10-bit and 12-bit variants the six status bytes map in order to
  the volatile configuration, the volatile value, the non-volatile configuration and the
  non-volatile value; each 16-bit value is read in the byte order of the host: on a
  little-endian host the first byte of the pair is the low byte, on a big-endian host it
  is the high byte.
\<close>

theorem C5_status_frame_fields:
  "model this \<noteq> MAX4706 \<Longrightarrow>
   volatileConfig (fst (readStatus a e this s)) = overlay_config a (received_byte e s 0)
   \<and> unat (volatileValue (fst (readStatus a e this s))) =
       (if little_endian a then unat (received_byte e s 1) + 256 * unat (received_byte e s 2)
        else 256 * unat (received_byte e s 1) + unat (received_byte e s 2))
   \<and> nonVolatileConfig (fst (readStatus a e this s)) = overlay_config a (received_byte e s 3)
   \<and> unat (nonVolatileValue (fst (readStatus a e this s))) =
       (if little_endian a then unat (received_byte e s 4) + 256 * unat (received_byte e s 5)
        else 256 * unat (received_byte e s 4) + unat (received_byte e s 5))"
  by (simp add: readStatus_value6 unat_overlay_uint16)

text \<open>The frame 0x00, 0x12, 0x34, 0x08, 0x56, 0x78 on the little-endian layout.\<close>

theorem C5_status_frame_fields_witness:
  "model (MAX47x6_new MAX4716 0x60) \<noteq> MAX4706
   \<and> unat (volatileValue (fst (readStatus particle_abi env_status6 (MAX47x6_new MAX4716 0x60) idle)))
       = 0x12 + 256 * 0x34
   \<and> unat (nonVolatileValue (fst (readStatus particle_abi env_status6 (MAX47x6_new MAX4716 0x60) idle)))
       = 0x56 + 256 * 0x78"
proof -
  have m: "model (MAX47x6_new MAX4716 0x60) \<noteq> MAX4706"
    by (simp add: MAX47x6_new_def)
  have "received_byte env_status6 idle 1 = 0x12" "received_byte env_status6 idle 2 = 0x34"
    "received_byte env_status6 idle 4 = 0x56" "received_byte env_status6 idle 5 = 0x78"
    by (simp_all add: received_byte_def env_status6_def idle_def reads_of_def to_uint8_def)
  with m C5_status_frame_fields [OF m, of particle_abi env_status6 idle] show ?thesis
    by (simp add: particle_abi_def)
qed

text \<open>
  C6 as stated: the frame 0b00000001, 0x2A, 0b00000011, 0x15 of the 8-bit variant decodes
  to \<^verbatim>\<open>ready\<close> 1, value 0x2A, \<^verbatim>\<open>ready\<close> 1, \<^verbatim>\<open>vref\<close> 1, value 0x15. The \<^verbatim>\<open>vref\<close>
  member of the non-volatile configuration 0b00000011 is 0: the member lies in bits 4 and
  3 of the byte.
\<close>

theorem C6_vref_field_is_zero:
  "vref (nonVolatileConfig (fst (readStatus particle_abi env_status4 (MAX47x6_new MAX4706 0x60) idle))) = 0
   \<and> \<not> (ready (volatileConfig (fst (readStatus particle_abi env_status4 (MAX47x6_new MAX4706 0x60) idle))) = 1
        \<and> volatileValue (fst (readStatus particle_abi env_status4 (MAX47x6_new MAX4706 0x60) idle)) = 0x2A
        \<and> ready (nonVolatileConfig (fst (readStatus particle_abi env_status4 (MAX47x6_new MAX4706 0x60) idle))) = 1
        \<and> vref (nonVolatileConfig (fst (readStatus particle_abi env_status4 (MAX47x6_new MAX4706 0x60) idle))) = 1
        \<and> nonVolatileValue (fst (readStatus particle_abi env_status4 (MAX47x6_new MAX4706 0x60) idle)) = 0x15)"
  by code_simp

text \<open>
  C6, amended. For the 8-bit variant the frame 0b00000001, 0x2A, 0b00000011, 0x15 decodes
  to the volatile value 0x2A and the non-volatile value 0x15 (the bytes zero-extended, not
  scaled) and to \<^verbatim>\<open>vref\<close> 0 in the non-volatile configuration, on every layout. Where
  bit-fields are allocated from the least significant bit, the members that are set are
  \<^verbatim>\<open>ready\<close> of both configurations and \<^verbatim>\<open>por\<close> of the non-volatile one; a set one-bit
  member reads as -1 where plain \<^verbatim>\<open>int\<close> bit-fields are signed and as 1 where they are
  not.
\<close>

theorem C6_narrow_frame_fields:
  assumes "model this = MAX4706" and "received e s 4 = [0x01, 0x2A, 0x03, 0x15]"
  shows "volatileValue (fst (readStatus a e this s)) = 0x2A
   \<and> nonVolatileValue (fst (readStatus a e this s)) = 0x15
   \<and> vref (nonVolatileConfig (fst (readStatus a e this s))) = 0
   \<and> (lsb_first_bitfields a \<longrightarrow>
        ready (volatileConfig (fst (readStatus a e this s))) = (if signed_bitfields a then - 1 else 1)
      \<and> ready (nonVolatileConfig (fst (readStatus a e this s))) = (if signed_bitfields a then - 1 else 1)
      \<and> por (nonVolatileConfig (fst (readStatus a e this s))) = (if signed_bitfields a then - 1 else 1))"
proof -
  from assms(2) have "received_byte e s 0 = 0x01" "received_byte e s 1 = 0x2A"
    "received_byte e s 2 = 0x03" "received_byte e s 3 = 0x15"
    by (simp_all add: received_def upt_conv_Cons eval_nat_numeral)
  then show ?thesis
    by (simp add: readStatus_value4 [OF assms(1)] overlay_config_def bitfield_def)
qed

text \<open>The same frame on the layout of GCC for little-endian ARM.\<close>

theorem C6_narrow_frame_fields_witness:
  "model (MAX47x6_new MAX4706 0x60) = MAX4706
   \<and> received env_status4 idle 4 = [0x01, 0x2A, 0x03, 0x15]
   \<and> lsb_first_bitfields particle_abi
   \<and> volatileValue (fst (readStatus particle_abi env_status4 (MAX47x6_new MAX4706 0x60) idle)) = 0x2A
   \<and> nonVolatileValue (fst (readStatus particle_abi env_status4 (MAX47x6_new MAX4706 0x60) idle)) = 0x15
   \<and> vref (nonVolatileConfig (fst (readStatus particle_abi env_status4 (MAX47x6_new MAX4706 0x60) idle))) = 0
   \<and> ready (volatileConfig (fst (readStatus particle_abi env_status4 (MAX47x6_new MAX4706 0x60) idle))) = - 1
   \<and> ready (nonVolatileConfig (fst (readStatus particle_abi env_status4 (MAX47x6_new MAX4706 0x60) idle))) = - 1
   \<and> por (nonVolatileConfig (fst (readStatus particle_abi env_status4 (MAX47x6_new MAX4706 0x60) idle))) = - 1"
proof -
  have m: "model (MAX47x6_new MAX4706 0x60) = MAX4706"
    by (simp add: MAX47x6_new_def)
  have rx: "received env_status4 idle 4 = [0x01, 0x2A, 0x03, 0x15]"
    by (simp add: received_def received_byte_def env_status4_def idle_def reads_of_def
        to_uint8_def upt_conv_Cons eval_nat_numeral)
  have abi: "lsb_first_bitfields particle_abi" "signed_bitfields particle_abi"
    by (simp_all add: particle_abi_def)
  from C6_narrow_frame_fields [OF m rx, of particle_abi] abi m rx show ?thesis by simp
qed

text \<open>
  C7. For a variant of width w and k below 2 ^ w, the frame of the value 2 ^ w + k is the
  frame of the value k, byte for byte.
\<close>

theorem C7_truncation:
  "k < 2 ^ value_bits m \<Longrightarrow>
   updateSettings_buf m v g (2 ^ value_bits m + k) p = updateSettings_buf m v g k p"
  using updateSettings_buf_take_bit [of m v g "2 ^ value_bits m + k" p]
    updateSettings_buf_take_bit [of m v g k p]
  by (simp only: take_bit_pow_add)

theorem C7_truncation_witness:
  "(5 :: 16 word) < 2 ^ value_bits MAX4716
   \<and> updateSettings_buf MAX4716 1 1 (2 ^ value_bits MAX4716 + 5) True
       = updateSettings_buf MAX4716 1 1 5 True
   \<and> updateSettings_buf MAX4716 1 1 5 True = [0x09, 0x01, 0x40]"
proof -
  have small: "(5 :: 16 word) < 2 ^ value_bits MAX4716"
    by (simp add: value_bits_def)
  have "updateSettings_buf MAX4716 1 1 5 True = [0x09, 0x01, 0x40]"
    by (simp add: updateSettings_buf_bytes to_uint8_def)
  with small C7_truncation [OF small, of 1 1 True] show ?thesis by simp
qed

text \<open>
  C8. \<^verbatim>\<open>updateSettings\<close> takes \<open>start\<close> from the clock after the write and then compares
  the unsigned difference of each later reading and \<open>start\<close> with 100. Let the readings
  be \<open>start\<close> plus the elapsed times \<open>el 0\<close>, \<open>el 1\<close>, ..., each below 2 ^ 32 ms, reduced
  modulo 2 ^ 32, for any \<open>start\<close>. If the first \<open>n\<close> readings show less than 100 ms and
  the device is not ready at the polls that follow them, and reading \<open>n\<close> shows 100 ms or
  more, then the run is exactly: the write, \<open>n\<close> polls, \<open>n + 2\<close> readings of the clock,
  result true. The loop neither ends before a reading shows 100 ms nor polls after one.
\<close>

theorem C8_timeout_wraparound:
  assumes ack: "endTransmission_result e (end_calls s) = 0"
    and clock: "\<forall>i\<le>n. el i < 2 ^ 32
        \<and> millis_result e (millis_calls s + 1 + i) = millis_result e (millis_calls s) + of_nat (el i)"
    and busy: "\<forall>i<n. el i < 100
        \<and> \<not> ready_read a e this (read_calls s + i * status_len (model this))"
    and late: "100 \<le> el n"
  shows "updateSettings a e this v g val p s =
     Some (True,
       s\<lparr>trace := trace s @ BeginTransmission (addr this)
            # map WireWrite (updateSettings_buf (model this) v g val p)
            @ EndTransmission 1 # replicate n (poll this),
         millis_calls := millis_calls s + n + 2,
         read_calls := read_calls s + n * status_len (model this),
         end_calls := end_calls s + 1\<rparr>)"
proof -
  let ?buf = "updateSettings_buf (model this) v g val p"
  let ?start = "millis_result e (millis_calls s)"
  let ?s2 = "s\<lparr>trace := trace s @ BeginTransmission (addr this) # map WireWrite ?buf @ [EndTransmission 1],
      end_calls := end_calls s + 1, millis_calls := millis_calls s + 1\<rparr>"
  have guard: "(millis_result e (millis_calls s + 1 + i) - ?start < MAX_EEPROM_WAIT_MS) = (el i < 100)"
    if "i \<le> n" for i
    using clock that by (intro guard_elapsed) auto
  have waiting: "\<forall>i<n. millis_result e (millis_calls ?s2 + i) - ?start < MAX_EEPROM_WAIT_MS
      \<and> \<not> ready_read a e this (read_calls ?s2 + i * status_len (model this))"
    using busy guard by (simp add: less_imp_le)
  have expired: "\<not> millis_result e (millis_calls ?s2 + n) - ?start < MAX_EEPROM_WAIT_MS"
    using late guard [of n] by simp
  from updateSettings_wait_exact [OF waiting expired] ack show ?thesis
    by (simp add: updateSettings_def writeDevice_eq millis_def)
qed

text \<open>
  A persisting write whose wait starts at 0xFFFFFFC0, 64 ms before the clock wraps
  around, with a device that is never ready: the reading 0xFFFFFFF2 (50 ms) is followed by
  a poll, the wrapped reading 0x24 (100 ms) ends the loop.
\<close>

theorem C8_timeout_wraparound_witness:
  "millis_result env_wrap 0 = 0xFFFFFFC0
   \<and> millis_result env_wrap 1 = 0xFFFFFFF2
   \<and> millis_result env_wrap 2 = 0x24
   \<and> updateSettings particle_abi env_wrap (MAX47x6_new MAX4716 0x60) 0 0 512 True idle =
       Some (True, \<lparr>trace = [BeginTransmission 0x60, WireWrite 0, WireWrite 0x80, WireWrite 0,
                             EndTransmission 1, RequestFrom 0x60 6 1],
                    millis_calls = 3, read_calls = 6, end_calls = 1\<rparr>)"
proof -
  let ?dev = "MAX47x6_new MAX4716 0x60"
  let ?el = "\<lambda>i::nat. 50 + 50 * i"
  have clk: "millis_result env_wrap 0 = 0xFFFFFFC0" "millis_result env_wrap 1 = 0xFFFFFFF2"
    "millis_result env_wrap 2 = 0x24"
    by (simp_all add: env_wrap_def)
  have ack: "endTransmission_result env_wrap (end_calls idle) = 0"
    by (simp add: env_wrap_def)
  have clock: "\<forall>i\<le>1. ?el i < 2 ^ 32
      \<and> millis_result env_wrap (millis_calls idle + 1 + i)
          = millis_result env_wrap (millis_calls idle) + of_nat (?el i)"
    by (simp add: env_wrap_def idle_def le_Suc_eq)
  have busy: "\<forall>i<1. ?el i < 100
      \<and> \<not> ready_read particle_abi env_wrap ?dev (read_calls idle + i * status_len (model ?dev))"
  proof -
    have "\<not> ready_read particle_abi env_wrap ?dev 0" by code_simp
    then show ?thesis by (simp add: idle_def)
  qed
  have late: "100 \<le> ?el 1" by simp
  have frame: "updateSettings_buf (model ?dev) 0 0 512 True = [0, 0x80, 0]" "addr ?dev = 0x60"
    "status_len (model ?dev) = 6"
    by (simp_all add: MAX47x6_new_def updateSettings_buf_bytes to_uint8_def status_len_def)
  from C8_timeout_wraparound [OF ack clock busy late, of 0 0 512 True]
  have "updateSettings particle_abi env_wrap ?dev 0 0 512 True idle =
     Some (True,
       idle\<lparr>trace := trace idle @ BeginTransmission (addr ?dev)
            # map WireWrite (updateSettings_buf (model ?dev) 0 0 512 True)
            @ EndTransmission 1 # replicate 1 (poll ?dev),
         millis_calls := millis_calls idle + 1 + 2,
         read_calls := read_calls idle + 1 * status_len (model ?dev),
         end_calls := end_calls idle + 1\<rparr>)"
    by simp
  then have "updateSettings particle_abi env_wrap ?dev 0 0 512 True idle =
       Some (True, \<lparr>trace = [BeginTransmission 0x60, WireWrite 0, WireWrite 0x80, WireWrite 0,
                             EndTransmission 1, RequestFrom 0x60 6 1],
                    millis_calls = 3, read_calls = 6, end_calls = 1\<rparr>)"
    by (simp add: frame idle_def poll_def)
  with clk show ?thesis by blast
qed

text \<open>
  C9. A constructor argument below 8 should give the bus address 0x60 or-ed with it. The
  constructor stores the argument as it is: with the argument 3, \<^verbatim>\<open>writeDevice\<close> opens its
  transaction to address 3 and \<^verbatim>\<open>readDevice\<close> requests from address 3, not 0x63.
\<close>

theorem C9_small_address_is_not_adjusted:
  "addr (MAX47x6_new m 3) = 3
   \<and> addr (MAX47x6_new m 3) \<noteq> 0x63
   \<and> hd (issued s (snd (writeDevice e (MAX47x6_new m 3) buf s))) = BeginTransmission 3
   \<and> issued s (snd (readDevice e (MAX47x6_new m 3) n s)) = [RequestFrom 3 (of_nat n) 1]"
  by (simp add: MAX47x6_new_def writeDevice_eq readDevice_eq issued_def)

text \<open>
  C10. \<^verbatim>\<open>updateValue\<close> returns true and leaves the bus and the counters of calls as they
  were, for every argument; the driver's members are not assigned by any operation.
\<close>

theorem C10_updateValue_does_nothing:
  "updateValue this val s = (True, s) \<and> issued s (snd (updateValue this val s)) = []"
  by (simp add: updateValue_def issued_def)

end
